theory Spec2Isabelle
  imports Complex_Main "HOL-Library.Word"
begin

section \<open>Machine numbers\<close>

text \<open>
  The quantum numbers are C++ \<open>int\<close>s: 32-bit two's-complement values, compared as
  signed numbers. \<open>l+1\<close> and \<open>abs\<close> are the machine operations; at the two ends of
  the range they wrap around (the C++ standard leaves the overflow undefined; the
  wrap-around is what the compiled comparison does).
\<close>

type_synonym cint = "32 word"

definition abs_int :: "cint \<Rightarrow> cint" where
  "abs_int x = (if x <s 0 then - x else x)"

text \<open>
  A \<open>GLfloat\<close> is modelled as a real number, or \<open>NonReal\<close> where the computation
  leaves the real numbers (IEEE NaN or an infinity: a division by zero, a square root of a
  negative number, an \<open>acos\<close> outside \<open>[-1, 1]\<close>). Rounding is not modelled: every
  operation on real numbers is exact, a decimal literal is the number it writes, and
  \<open>PI\<close> is \<open>\<pi>\<close>. An operation with a \<open>NonReal\<close> operand is \<open>NonReal\<close>, as a NaN
  propagates. The one infinity the program can compute, \<open>1.0f / sphereRadius\<close> for a
  zero radius, is only ever a factor of a product, which is a NaN or an infinity again,
  so that nothing is lost by not telling the two apart.
\<close>

datatype GLfloat = Fin real | NonReal

instantiation GLfloat :: "{zero, one, plus, minus, uminus, times, inverse}"
begin

definition zero_GLfloat :: GLfloat where
  "zero_GLfloat = Fin 0"

definition one_GLfloat :: GLfloat where
  "one_GLfloat = Fin 1"

fun plus_GLfloat :: "GLfloat \<Rightarrow> GLfloat \<Rightarrow> GLfloat" where
  "plus_GLfloat (Fin a) (Fin b) = Fin (a + b)"
| "plus_GLfloat _ _ = NonReal"

fun minus_GLfloat :: "GLfloat \<Rightarrow> GLfloat \<Rightarrow> GLfloat" where
  "minus_GLfloat (Fin a) (Fin b) = Fin (a - b)"
| "minus_GLfloat _ _ = NonReal"

fun uminus_GLfloat :: "GLfloat \<Rightarrow> GLfloat" where
  "uminus_GLfloat (Fin a) = Fin (- a)"
| "uminus_GLfloat NonReal = NonReal"

fun times_GLfloat :: "GLfloat \<Rightarrow> GLfloat \<Rightarrow> GLfloat" where
  "times_GLfloat (Fin a) (Fin b) = Fin (a * b)"
| "times_GLfloat _ _ = NonReal"

fun divide_GLfloat :: "GLfloat \<Rightarrow> GLfloat \<Rightarrow> GLfloat" where
  "divide_GLfloat (Fin a) (Fin b) = (if b = 0 then NonReal else Fin (a / b))"
| "divide_GLfloat _ _ = NonReal"

fun inverse_GLfloat :: "GLfloat \<Rightarrow> GLfloat" where
  "inverse_GLfloat (Fin a) = (if a = 0 then NonReal else Fin (inverse a))"
| "inverse_GLfloat NonReal = NonReal"

instance ..

end

instance GLfloat :: semigroup_add
proof
  fix a b c :: GLfloat
  show "a + b + c = a + (b + c)"
    by (cases a; cases b; cases c) simp_all
qed

instance GLfloat :: numeral ..

text \<open>The functions of \<open><cmath>\<close> the program calls, on their real domains.\<close>

fun sqrt_fl :: "GLfloat \<Rightarrow> GLfloat" where
  "sqrt_fl (Fin a) = (if 0 \<le> a then Fin (sqrt a) else NonReal)"
| "sqrt_fl NonReal = NonReal"

fun exp_fl :: "GLfloat \<Rightarrow> GLfloat" where
  "exp_fl (Fin a) = Fin (exp a)"
| "exp_fl NonReal = NonReal"

fun cos_fl :: "GLfloat \<Rightarrow> GLfloat" where
  "cos_fl (Fin a) = Fin (cos a)"
| "cos_fl NonReal = NonReal"

fun sin_fl :: "GLfloat \<Rightarrow> GLfloat" where
  "sin_fl (Fin a) = Fin (sin a)"
| "sin_fl NonReal = NonReal"

definition cosf :: "GLfloat \<Rightarrow> GLfloat" where
  "cosf a = cos_fl a"

definition sinf :: "GLfloat \<Rightarrow> GLfloat" where
  "sinf a = sin_fl a"

fun acos :: "GLfloat \<Rightarrow> GLfloat" where
  "acos (Fin a) = (if - 1 \<le> a \<and> a \<le> 1 then Fin (arccos a) else NonReal)"
| "acos NonReal = NonReal"

text \<open>\<open>atan2(y, x)\<close>: the angle of the point \<open>(x, y)\<close> in \<open>(-\<pi>, \<pi>]\<close>, and 0 at the origin.\<close>

fun atan2 :: "GLfloat \<Rightarrow> GLfloat \<Rightarrow> GLfloat" where
  "atan2 (Fin y) (Fin x) =
     (if 0 < x then Fin (arctan (y / x))
      else if x < 0 \<and> 0 \<le> y then Fin (arctan (y / x) + pi)
      else if x < 0 then Fin (arctan (y / x) - pi)
      else if 0 < y then Fin (pi / 2)
      else if y < 0 then Fin (- pi / 2)
      else Fin 0)"
| "atan2 _ _ = NonReal"

text \<open>
  \<open>pow(x, y)\<close>: infinite for a zero base and a negative exponent; an integer exponent is
  a repeated product (a negative one of the inverse); any other exponent needs a base
  that is not negative. \<open>pow(x, 0)\<close> and \<open>pow(1, y)\<close> are 1 whatever the other
  argument is.
\<close>

fun pow :: "GLfloat \<Rightarrow> GLfloat \<Rightarrow> GLfloat" where
  "pow (Fin x) (Fin y) =
     (if x = 0 \<and> y < 0 then NonReal
      else if y \<in> \<int> then Fin (x powi \<lfloor>y\<rfloor>)
      else if x < 0 then NonReal
      else Fin (x powr y))"
| "pow NonReal (Fin y) = (if y = 0 then Fin 1 else NonReal)"
| "pow (Fin x) NonReal = (if x = 1 then Fin 1 else NonReal)"
| "pow NonReal NonReal = NonReal"

text \<open>
  Conversions between \<open>int\<close> and floating point: exact one way, truncating the other
  (of a value that is no real number C++ says nothing; the program converts none).
\<close>

definition to_GLfloat :: "nat \<Rightarrow> GLfloat" where
  "to_GLfloat i = Fin (real i)"

fun to_int :: "GLfloat \<Rightarrow> int" where
  "to_int (Fin a) = (if 0 \<le> a then \<lfloor>a\<rfloor> else \<lceil>a\<rceil>)"
| "to_int NonReal = 0"

fun cbrt :: "GLfloat \<Rightarrow> GLfloat" where
  "cbrt (Fin a) = Fin (root 3 a)"
| "cbrt NonReal = NonReal"

text \<open>\<open>std::vector::at\<close> throws \<open>std::out_of_range\<close> outside the vector: \<open>None\<close>.\<close>

definition at_vec :: "'a list \<Rightarrow> nat \<Rightarrow> 'a option" where
  "at_vec xs k = (if k < length xs then Some (xs ! k) else None)"

section \<open>Constants\<close>

definition PI :: GLfloat where
  "PI = Fin pi"

definition sectorCount :: nat where
  "sectorCount = 9"

definition stackCount :: nat where
  "stackCount = 9"

definition NUM_VERTICES_PER_SPHERE :: nat where
  "NUM_VERTICES_PER_SPHERE = 100"


definition numSpheres :: nat where
  "numSpheres = nat (to_int (pow 11 3))"

section \<open>Spherical coordinates\<close>

definition r_of :: "GLfloat \<Rightarrow> GLfloat \<Rightarrow> GLfloat \<Rightarrow> GLfloat" where
  "r_of x y z = sqrt_fl (x * x + y * y + z * z)"

definition theta_of :: "GLfloat \<Rightarrow> GLfloat \<Rightarrow> GLfloat \<Rightarrow> GLfloat" where
  "theta_of x y z = (let r = sqrt_fl (x * x + y * y + z * z) in acos (z / r))"

definition phi_of :: "GLfloat \<Rightarrow> GLfloat \<Rightarrow> GLfloat \<Rightarrow> GLfloat" where
  "phi_of x y z = atan2 y x"

section \<open>Probability densities\<close>

text \<open>
  The ten functions \<open>_100_eq\<close> ... \<open>_322_eq\<close> of the source (a name cannot start with an
  underscore here): the probability density at \<open>(r, theta, phi)\<close>, the square of the
  rescaled wave function.
\<close>

definition orbital_100_eq :: "GLfloat \<Rightarrow> GLfloat \<Rightarrow> GLfloat \<Rightarrow> GLfloat" where
  "orbital_100_eq r theta phi =
     (let max_prob_amp = 1 * pow 10 0;
          wavefunction = 1 / max_prob_amp * exp_fl (- r) / sqrt_fl PI
      in pow wavefunction 2)"

definition orbital_200_eq :: "GLfloat \<Rightarrow> GLfloat \<Rightarrow> GLfloat \<Rightarrow> GLfloat" where
  "orbital_200_eq r theta phi =
     (let max_prob_amp = 1 * pow 10 (- 1);
          wavefunction = 1 / max_prob_amp * 1 / 8 / pow (2 * PI) (Fin 0.5) * (2 - r) * exp_fl ((- r) / 2)
      in pow wavefunction 2)"

definition orbital_210_eq :: "GLfloat \<Rightarrow> GLfloat \<Rightarrow> GLfloat \<Rightarrow> GLfloat" where
  "orbital_210_eq r theta phi =
     (let max_prob_amp = Fin 8.7 * pow 10 (- 1);
          wavefunction = 1 / max_prob_amp * r * exp_fl ((- r) / 2) * cos_fl theta
      in pow wavefunction 2)"

definition orbital_211_eq :: "GLfloat \<Rightarrow> GLfloat \<Rightarrow> GLfloat \<Rightarrow> GLfloat" where
  "orbital_211_eq r theta phi =
     (let max_prob_amp = Fin 7.5 * pow 10 (- 1);
          wavefunction = 1 / max_prob_amp * r * exp_fl ((- r) / 2) * sin_fl theta
      in pow wavefunction 2)"

definition orbital_300_eq :: "GLfloat \<Rightarrow> GLfloat \<Rightarrow> GLfloat \<Rightarrow> GLfloat" where
  "orbital_300_eq r theta phi =
     (let max_prob_amp = 25 * pow 10 (- 1);
          wavefunction = 1 / max_prob_amp * (27 - 18 * r + 2 * r * r) * exp_fl ((- r) / 2)
      in pow wavefunction 2)"

definition orbital_310_eq :: "GLfloat \<Rightarrow> GLfloat \<Rightarrow> GLfloat \<Rightarrow> GLfloat" where
  "orbital_310_eq r theta phi =
     (let max_prob_amp = 4 * pow 10 0;
          wavefunction = 1 / max_prob_amp * (6 - r) * r * exp_fl ((- r) / 3) * cos_fl theta
      in pow wavefunction 2)"

definition orbital_311_eq :: "GLfloat \<Rightarrow> GLfloat \<Rightarrow> GLfloat \<Rightarrow> GLfloat" where
  "orbital_311_eq r theta phi =
     (let max_prob_amp = Fin 4.5 * pow 10 0;
          wavefunction = 1 / max_prob_amp * (6 - r) * r * exp_fl ((- r) / 3) * sin_fl theta
      in pow wavefunction 2)"

definition orbital_320_eq :: "GLfloat \<Rightarrow> GLfloat \<Rightarrow> GLfloat \<Rightarrow> GLfloat" where
  "orbital_320_eq r theta phi =
     (let max_prob_amp = 92 * pow 10 (- 1);
          wavefunction = 1 / max_prob_amp * pow r 2 * exp_fl ((- r) / 3) * (3 * pow (cos_fl theta) 2 - 1)
      in pow wavefunction 2)"

definition orbital_321_eq :: "GLfloat \<Rightarrow> GLfloat \<Rightarrow> GLfloat \<Rightarrow> GLfloat" where
  "orbital_321_eq r theta phi =
     (let max_prob_amp = 25 * pow 10 (- 1);
          wavefunction = 1 / max_prob_amp * pow r 2 * exp_fl ((- r) / 3) * sin_fl theta * cos_fl theta
      in pow wavefunction 2)"

definition orbital_322_eq :: "GLfloat \<Rightarrow> GLfloat \<Rightarrow> GLfloat \<Rightarrow> GLfloat" where
  "orbital_322_eq r theta phi =
     (let max_prob_amp = 48 * pow 10 (- 1);
          wavefunction = 1 / max_prob_amp * pow r 2 * exp_fl ((- r) / 3) * pow (sin_fl theta) 2
      in pow wavefunction 2)"

section \<open>The branches of \<open>main\<close>\<close>

text \<open>
  \<open>main\<close> has one branch per supported orbital. The ten branches are the same text but
  for the condition, the printed scale, the call of the density function with its
  rescaled radius, and the division by 0.31 in the first branch.
\<close>

datatype orbital =
  Orb100 | Orb200 | Orb210 | Orb211 | Orb300 | Orb310 | Orb311 | Orb320 | Orb321 | Orb322

definition select_orbital :: "cint \<Rightarrow> cint \<Rightarrow> cint \<Rightarrow> orbital option" where
  "select_orbital n l ml =
     (if n = 1 \<and> l = 0 \<and> ml = 0 then Some Orb100
      else if n = 2 \<and> l = 0 \<and> ml = 0 then Some Orb200
      else if n = 2 \<and> l = 1 \<and> ml = 0 then Some Orb210
      else if n = 2 \<and> l = 1 \<and> (ml = 1 \<or> ml = - 1) then Some Orb211
      else if n = 3 \<and> l = 0 \<and> ml = 0 then Some Orb300
      else if n = 3 \<and> l = 1 \<and> ml = 0 then Some Orb310
      else if n = 3 \<and> l = 1 \<and> (ml = 1 \<or> ml = - 1) then Some Orb311
      else if n = 3 \<and> l = 2 \<and> ml = 0 then Some Orb320
      else if n = 3 \<and> l = 2 \<and> (ml = 1 \<or> ml = - 1) then Some Orb321
      else if n = 3 \<and> l = 2 \<and> (ml = 2 \<or> ml = - 2) then Some Orb322
      else None)"

fun scale_factor :: "orbital \<Rightarrow> string" where
  "scale_factor Orb100 = ''Scale factor: axes extend to 1 Bohr (0.5 A).''"
| "scale_factor Orb200 = ''Scale factor: axes extend to 2 Bohr (1.0 A).''"
| "scale_factor Orb210 = ''Scale factor: axes extend to 1 Bohr (0.5 A).''"
| "scale_factor Orb211 = ''Scale factor: axes extend to 5 Bohr (2.5 A).''"
| "scale_factor Orb300 = ''Scale factor: axes extend to 10 Bohr (5.0 A).''"
| "scale_factor Orb310 = ''Scale factor: axes extend to 7.5 Bohr (3.75 A).''"
| "scale_factor Orb311 = ''Scale factor: axes extend to 6.7 Bohr (3.3 A).''"
| "scale_factor Orb320 = ''Scale factor: axes extend to 10 Bohr (5 A).''"
| "scale_factor Orb321 = ''Scale factor: axes extend to 10 Bohr (5 A).''"
| "scale_factor Orb322 = ''Scale factor: axes extend to 10 Bohr (5 A).''"

text \<open>The density function that each branch calls.\<close>

fun evaluator :: "orbital \<Rightarrow> GLfloat \<Rightarrow> GLfloat \<Rightarrow> GLfloat \<Rightarrow> GLfloat" where
  "evaluator Orb100 = orbital_100_eq"
| "evaluator Orb200 = orbital_200_eq"
| "evaluator Orb210 = orbital_210_eq"
| "evaluator Orb211 = orbital_211_eq"
| "evaluator Orb300 = orbital_300_eq"
| "evaluator Orb310 = orbital_310_eq"
| "evaluator Orb311 = orbital_311_eq"
| "evaluator Orb320 = orbital_320_eq"
| "evaluator Orb321 = orbital_321_eq"
| "evaluator Orb322 = orbital_322_eq"

text \<open>The call of each branch, with the radius in the branch's unit.\<close>

fun probDensity :: "orbital \<Rightarrow> GLfloat \<Rightarrow> GLfloat \<Rightarrow> GLfloat \<Rightarrow> GLfloat" where
  "probDensity Orb100 r theta phi = orbital_100_eq (r / Fin 5.0) theta phi"
| "probDensity Orb200 r theta phi = orbital_200_eq (r / Fin 2.5) theta phi"
| "probDensity Orb210 r theta phi = orbital_210_eq r theta phi"
| "probDensity Orb211 r theta phi = orbital_211_eq (r / Fin 1.0) theta phi"
| "probDensity Orb300 r theta phi = orbital_300_eq (r / Fin 0.5) theta phi"
| "probDensity Orb310 r theta phi = orbital_310_eq (r / Fin 0.666666666) theta phi"
| "probDensity Orb311 r theta phi = orbital_311_eq (r / Fin 0.666666666666) theta phi"
| "probDensity Orb320 r theta phi = orbital_320_eq (r / Fin 0.4) theta phi"
| "probDensity Orb321 r theta phi = orbital_321_eq (r / Fin 0.5) theta phi"
| "probDensity Orb322 r theta phi = orbital_322_eq (r / Fin 0.5) theta phi"

fun sphereRadius :: "orbital \<Rightarrow> GLfloat \<Rightarrow> GLfloat \<Rightarrow> GLfloat" where
  "sphereRadius Orb100 step pd = step / Fin 1.5 * pd / Fin 0.31"
| "sphereRadius orb step pd = step / Fin 1.5 * pd"

fun sphereColor_red :: "orbital \<Rightarrow> GLfloat \<Rightarrow> GLfloat" where
  "sphereColor_red Orb100 pd = Fin 1.0 * (1 - pd / Fin 0.31)"
| "sphereColor_red orb pd = Fin 1.0 * (1 - pd)"

fun sphereColor_green :: "orbital \<Rightarrow> GLfloat \<Rightarrow> GLfloat" where
  "sphereColor_green Orb100 pd = Fin 1.0 * pd / Fin 0.31"
| "sphereColor_green orb pd = Fin 1.0 * pd"

definition sphereColor_blue :: GLfloat where
  "sphereColor_blue = Fin 0.2"

section \<open>The grid\<close>

definition numSpheres_per_side :: nat where
  "numSpheres_per_side = nat (to_int (cbrt (to_GLfloat numSpheres)))"

definition step :: GLfloat where
  "step = Fin 10.00 / Fin (of_int (int numSpheres_per_side - 1))"

text \<open>The center coordinate \<open>-5.00f + (i * step)\<close> of the spheres with grid index \<open>i\<close>.\<close>

definition center :: "nat \<Rightarrow> GLfloat" where
  "center i = - Fin 5.00 + (to_GLfloat i * step)"

text \<open>
  What the body of the three grid loops computes before it generates the sphere at the
  grid point \<open>(i, j, k)\<close>: center, density, radius and color.
\<close>

record sphere =
  center_x :: GLfloat
  center_y :: GLfloat
  center_z :: GLfloat
  density :: GLfloat
  radius :: GLfloat
  red :: GLfloat
  green :: GLfloat
  blue :: GLfloat

definition sample :: "orbital \<Rightarrow> nat \<Rightarrow> nat \<Rightarrow> nat \<Rightarrow> sphere" where
  "sample orb i j k =
     (let x = center i; y = center j; z = center k;
          r = r_of x y z;
          theta = theta_of x y z;
          phi = phi_of x y z;
          pd = probDensity orb r theta phi
      in \<lparr>center_x = x, center_y = y, center_z = z, density = pd,
          radius = sphereRadius orb step pd,
          red = sphereColor_red orb pd, green = sphereColor_green orb pd,
          blue = sphereColor_blue\<rparr>)"

section \<open>One sphere\<close>

definition sectorStep :: GLfloat where
  "sectorStep = 2 * PI / to_GLfloat sectorCount"

definition stackStep :: GLfloat where
  "stackStep = PI / to_GLfloat stackCount"

definition stackAngle :: "nat \<Rightarrow> GLfloat" where
  "stackAngle i_local = PI / 2 - to_GLfloat i_local * stackStep"

definition sectorAngle :: "nat \<Rightarrow> GLfloat" where
  "sectorAngle j_local = to_GLfloat j_local * sectorStep"

definition xy_local :: "GLfloat \<Rightarrow> nat \<Rightarrow> GLfloat" where
  "xy_local rad i_local = rad * cosf (stackAngle i_local)"

definition z_local :: "GLfloat \<Rightarrow> nat \<Rightarrow> GLfloat" where
  "z_local rad i_local = rad * sinf (stackAngle i_local)"

definition x_local :: "GLfloat \<Rightarrow> nat \<Rightarrow> nat \<Rightarrow> GLfloat" where
  "x_local rad i_local j_local = xy_local rad i_local * cosf (sectorAngle j_local)"

definition y_local :: "GLfloat \<Rightarrow> nat \<Rightarrow> nat \<Rightarrow> GLfloat" where
  "y_local rad i_local j_local = xy_local rad i_local * sinf (sectorAngle j_local)"

text \<open>
  The two nested loops over \<open>i_local \<le> stackCount\<close> and \<open>j_local \<le> sectorCount\<close>
  push three positions and three normal components for each vertex.
\<close>

definition sphereVertices :: "GLfloat \<Rightarrow> GLfloat \<Rightarrow> GLfloat \<Rightarrow> GLfloat \<Rightarrow> GLfloat list" where
  "sphereVertices x y z rad =
     concat (map (\<lambda>i_local. concat (map (\<lambda>j_local.
         [x_local rad i_local j_local + x,
          y_local rad i_local j_local + y,
          z_local rad i_local + z])
       [0..<Suc sectorCount])) [0..<Suc stackCount])"

definition sphereNormals :: "GLfloat \<Rightarrow> GLfloat list" where
  "sphereNormals rad =
     (let lengthInv = 1 / rad in
      concat (map (\<lambda>i_local. concat (map (\<lambda>j_local.
         [x_local rad i_local j_local * lengthInv,
          y_local rad i_local j_local * lengthInv,
          z_local rad i_local * lengthInv])
       [0..<Suc sectorCount])) [0..<Suc stackCount]))"

text \<open>
  The loop that interleaves positions, color, the texture coordinate (0, 0) and normals:
  eleven values for each pass, while \<open>i_a\<close> is below the length computed beforehand.
\<close>

function complete_loop ::
  "GLfloat list \<Rightarrow> GLfloat list \<Rightarrow> GLfloat \<Rightarrow> GLfloat \<Rightarrow> GLfloat \<Rightarrow> nat \<Rightarrow> nat \<Rightarrow> nat \<Rightarrow>
   GLfloat list \<Rightarrow> GLfloat list option" where
  "complete_loop sVertices sNormals cr cg cb len j_a i_a acc =
     (if i_a < len then
        (case those [at_vec sVertices j_a, at_vec sVertices (j_a + 1), at_vec sVertices (j_a + 2)] of
           None \<Rightarrow> None
         | Some coordinates \<Rightarrow>
             (case those [at_vec sNormals j_a, at_vec sNormals (j_a + 1), at_vec sNormals (j_a + 2)] of
                None \<Rightarrow> None
              | Some normals \<Rightarrow>
                  complete_loop sVertices sNormals cr cg cb len (j_a + 3) (i_a + 11)
                    (acc @ coordinates @ [cr, cg, cb] @ [0, 0] @ normals)))
      else Some acc)"
  by pat_completeness auto
termination
  by (relation "measure (\<lambda>(sVertices, sNormals, cr, cg, cb, len, j_a, i_a, acc). len - i_a)") auto

declare complete_loop.simps [simp del]

definition completeSphereVertexVec ::
  "GLfloat list \<Rightarrow> GLfloat list \<Rightarrow> GLfloat \<Rightarrow> GLfloat \<Rightarrow> GLfloat \<Rightarrow> GLfloat list option" where
  "completeSphereVertexVec sVertices sNormals cr cg cb =
     (let length_completeSphereVertexVec = nat (to_int (Fin (real (length sVertices) * 11.0 / 3)))
      in complete_loop sVertices sNormals cr cg cb length_completeSphereVertexVec 0 0 [])"

text \<open>The rest of the body: the vertex vector of the sphere at \<open>(i, j, k)\<close>.\<close>

definition sphere_at :: "orbital \<Rightarrow> nat \<Rightarrow> nat \<Rightarrow> nat \<Rightarrow> GLfloat list option" where
  "sphere_at orb i j k =
     (let s = sample orb i j k
      in completeSphereVertexVec
           (sphereVertices (center_x s) (center_y s) (center_z s) (radius s))
           (sphereNormals (radius s))
           (red s) (green s) (blue s))"

definition allSpheres_VertexVec :: "orbital \<Rightarrow> GLfloat list list option" where
  "allSpheres_VertexVec orb =
     those (concat (map (\<lambda>i. concat (map (\<lambda>j. map (\<lambda>k. sphere_at orb i j k)
       [0..<numSpheres_per_side]) [0..<numSpheres_per_side])) [0..<numSpheres_per_side]))"

text \<open>
  The vertex record of the data model: the eleven values of vertex \<open>v\<close> of a sphere
  (position, color, texture coordinate, normal), the vertices counted along the stacks,
  \<open>sectorCount + 1\<close> to each stack. The theorems compare the arrays of \<open>main\<close> with it.
\<close>

definition vertex_record :: "sphere \<Rightarrow> nat \<Rightarrow> GLfloat list" where
  "vertex_record s v =
     (let i_local = v div (sectorCount + 1);
          j_local = v mod (sectorCount + 1);
          lengthInv = 1 / radius s
      in [x_local (radius s) i_local j_local + center_x s,
          y_local (radius s) i_local j_local + center_y s,
          z_local (radius s) i_local + center_z s,
          red s, green s, blue s,
          0, 0,
          x_local (radius s) i_local j_local * lengthInv,
          y_local (radius s) i_local j_local * lengthInv,
          z_local (radius s) i_local * lengthInv])"

section \<open>The buffers\<close>

text \<open>
  The vertex array is declared with \<open>numSpheres\<close> times the size of the first vector and
  filled with the vectors one after the other. A filling that does not end at the end of
  the array is \<open>None\<close>, as a missing first vector is.
\<close>

definition allSpheres_VertexArr :: "GLfloat list list \<Rightarrow> GLfloat list option" where
  "allSpheres_VertexArr vecs =
     (case at_vec vecs 0 of
        None \<Rightarrow> None
      | Some first \<Rightarrow>
          (if length (concat vecs) = numSpheres * length first then Some (concat vecs) else None))"

text \<open>
  The loop over one stack of the sphere: \<open>m\<close> sectors are left, \<open>k1\<close> and \<open>k2\<close> move
  on with each of them.
\<close>

fun sector_loop :: "nat \<Rightarrow> nat \<Rightarrow> nat \<Rightarrow> nat \<Rightarrow> nat list" where
  "sector_loop i 0 k1 k2 = []"
| "sector_loop i (Suc m) k1 k2 =
     (if i \<noteq> 0 then [k1, k2, k1 + 1] else []) @
     (if i \<noteq> stackCount - 1 then [k1 + 1, k2, k2 + 1] else []) @
     sector_loop i m (k1 + 1) (k2 + 1)"

definition singleSphere_IndicesVec :: "nat list" where
  "singleSphere_IndicesVec =
     concat (map (\<lambda>i.
        (let k1 = i * (sectorCount + 1);
             k2 = k1 + sectorCount + 1
         in sector_loop i sectorCount k1 k2))
       [0..<stackCount])"

definition allSpheres_IndicesArr :: "nat list option" where
  "allSpheres_IndicesArr =
     those (map (\<lambda>i.
        (let mod_i = i mod length singleSphere_IndicesVec;
             n = i div length singleSphere_IndicesVec
         in map_option (\<lambda>v. v + NUM_VERTICES_PER_SPHERE * n) (at_vec singleSphere_IndicesVec mod_i)))
       [0..<numSpheres * length singleSphere_IndicesVec])"

section \<open>\<open>main\<close>\<close>

text \<open>
  The ways \<open>main\<close> ends without buffers: its three early returns, and \<open>OutOfRange\<close>
  for an access outside a vector or an array (the proofs show that there is none).
\<close>

datatype error =
  InvalidQuantumState | WindowCreationFailed | UnsupportedQuantumState | OutOfRange

record buffers =
  printed :: string
  vertexArr :: "GLfloat list"
  indicesArr :: "nat list"

text \<open>
  \<open>main\<close> on the three numbers read: it returns after the message
  ``This combination of quantum numbers is not allowed.'' (\<open>InvalidQuantumState\<close>),
  when no window could be created, or after ``The quantum numbers entered are not yet
  supported.'' (\<open>UnsupportedQuantumState\<close>); otherwise it prints the scale of the axes
  and builds the two arrays that go to the graphics buffers.
\<close>

definition main :: "cint \<Rightarrow> cint \<Rightarrow> cint \<Rightarrow> bool \<Rightarrow> error + buffers" where
  "main n l ml window_created =
     (if n <s l + 1 \<or> abs_int l <s abs_int ml \<or> l <s 0 then Inl InvalidQuantumState
      else if \<not> window_created then Inl WindowCreationFailed
      else
        (case select_orbital n l ml of
           None \<Rightarrow> Inl UnsupportedQuantumState
         | Some orb \<Rightarrow>
             (case allSpheres_VertexVec orb of
                None \<Rightarrow> Inl OutOfRange
              | Some vecs \<Rightarrow>
                  (case allSpheres_VertexArr vecs of
                     None \<Rightarrow> Inl OutOfRange
                   | Some varr \<Rightarrow>
                       (case allSpheres_IndicesArr of
                          None \<Rightarrow> Inl OutOfRange
                        | Some iarr \<Rightarrow>
                            Inr \<lparr>printed = scale_factor orb, vertexArr = varr, indicesArr = iarr\<rparr>)))))"

section \<open>Arithmetic of the number models\<close>

lemma numeral_GLfloat: "(numeral k :: GLfloat) = Fin (numeral k)"
proof (induction k)
  case One
  show ?case by (simp add: one_GLfloat_def)
next
  case (Bit0 k)
  have "(numeral (num.Bit0 k) :: GLfloat) = numeral k + numeral k"
    by (simp only: numeral.simps)
  also have "\<dots> = Fin (numeral k + numeral k)"
    by (simp only: Bit0 plus_GLfloat.simps)
  also have "numeral k + numeral k = (numeral (num.Bit0 k) :: real)"
    by (simp only: numeral.simps)
  finally show ?case .
next
  case (Bit1 k)
  have "(numeral (num.Bit1 k) :: GLfloat) = numeral k + numeral k + 1"
    by (simp only: numeral.simps)
  also have "\<dots> = Fin (numeral k + numeral k + 1)"
    by (simp only: Bit1 plus_GLfloat.simps one_GLfloat_def)
  also have "numeral k + numeral k + 1 = (numeral (num.Bit1 k) :: real)"
    by (simp only: numeral.simps)
  finally show ?case .
qed

lemmas fl = numeral_GLfloat one_GLfloat_def zero_GLfloat_def to_GLfloat_def PI_def

lemma sint_succ: "sint l < 2 ^ 31 - 1 \<Longrightarrow> sint (l + 1) = sint l + 1"
  for l :: cint
proof -
  assume a: "sint l < 2 ^ 31 - 1"
  have lo: "- (2 ^ 31) \<le> sint l"
    using sint_ge [of l] by simp
  have "sint (l + 1) = signed_take_bit 31 (sint l + 1)"
    by (simp add: sint_word_ariths)
  also have "\<dots> = sint l + 1"
    using a lo by (intro signed_take_bit_int_eq_self) simp_all
  finally show ?thesis .
qed

lemma sint_neg: "- (2 ^ 31) < sint x \<Longrightarrow> sint (- x) = - sint x"
  for x :: cint
proof -
  assume a: "- (2 ^ 31) < sint x"
  have hi: "sint x < 2 ^ 31"
    using sint_lt [of x] by simp
  have "sint (- x) = signed_take_bit 31 (- sint x)"
    by (simp add: sint_word_ariths)
  also have "\<dots> = - sint x"
    using a hi by (intro signed_take_bit_int_eq_self) simp_all
  finally show ?thesis .
qed

lemma sint_abs_int: "- (2 ^ 31) < sint x \<Longrightarrow> sint (abs_int x) = \<bar>sint x\<bar>"
  for x :: cint
  by (simp add: abs_int_def word_sless_alt sint_neg)

lemma sint_abs_int_min: "sint x = - (2 ^ 31) \<Longrightarrow> sint (abs_int x) = - (2 ^ 31)"
  for x :: cint
proof -
  assume a: "sint x = - (2 ^ 31)"
  have "sint (- x) = signed_take_bit 31 (- sint x)"
    by (simp add: sint_word_ariths)
  also have "\<dots> = - (2 ^ 31)"
    by (simp add: a)
  finally show ?thesis
    using a by (simp add: abs_int_def word_sless_alt)
qed

section \<open>The check of the quantum numbers\<close>

text \<open>
  Away from the two ends of the \<open>int\<close> range, where \<open>l+1\<close> and \<open>abs(ml)\<close> are the
  numbers they denote, \<open>main\<close> returns after ``not allowed'' exactly for the triples
  with \<open>l < 0\<close>, \<open>l + 1 > n\<close> or \<open>|ml| > |l|\<close>.
\<close>

lemma main_invalid_iff:
  fixes n l ml :: cint
  assumes "sint l < 2 ^ 31 - 1" and "- (2 ^ 31) < sint ml"
  shows "main n l ml w = Inl InvalidQuantumState \<longleftrightarrow>
           sint l < 0 \<or> sint n < sint l + 1 \<or> \<bar>sint l\<bar> < \<bar>sint ml\<bar>"
proof -
  have inv: "main n l ml w = Inl InvalidQuantumState \<longleftrightarrow>
      n <s l + 1 \<or> abs_int l <s abs_int ml \<or> l <s 0"
    by (auto simp add: main_def split: option.splits)
  have lo: "- (2 ^ 31) \<le> sint l"
    using sint_ge [of l] by simp
  show ?thesis
  proof (cases "sint l = - (2 ^ 31)")
    case True
    then show ?thesis
      using assms by (simp add: inv word_sless_alt sint_succ sint_abs_int sint_abs_int_min)
  next
    case False
    with lo have "- (2 ^ 31) < sint l"
      by simp
    then show ?thesis
      using assms by (auto simp add: inv word_sless_alt sint_succ sint_abs_int)
  qed
qed

text \<open>The check comes before the choice of the branch: \<open>(2, 1, 2)\<close> is ``not allowed''.\<close>

lemma main_2_1_2: "main 2 1 2 w = Inl InvalidQuantumState"
  by (simp add: main_def abs_int_def word_sless_alt)

text \<open>
  C1: every integer triple read is rejected as InvalidQuantumState exactly when \<open>l < 0\<close>,
  \<open>l + 1 > n\<close> or \<open>|ml| > |l|\<close>. At \<open>ml = -2147483648\<close> the check misses it:
  \<open>abs(ml)\<close> overflows and is not above \<open>abs(l)\<close>, so the triple \<open>(3, 2, ml)\<close>, with
  \<open>|ml| > |l|\<close>, passes the check, and \<open>main\<close> ends with ``not yet supported''.
\<close>

theorem C1_abs_overflow_passes_check:
  "\<bar>sint (2 :: cint)\<bar> < \<bar>sint (- 2147483648 :: cint)\<bar> \<and>
   main 3 2 (- 2147483648) True = Inl UnsupportedQuantumState"
  by (simp add: main_def abs_int_def word_sless_alt select_orbital_def)

section \<open>The density functions\<close>

text \<open>
  C9: the ground-state density function at \<open>r = 0\<close>, \<open>theta = \<pi>/2\<close>, \<open>phi = 0\<close> returns
  \<open>(1/normConst)\<^sup>2 \<cdot> (1/\<pi>)\<close> with the constant 1.0 of the source, that is \<open>1/\<pi>\<close>.
\<close>

theorem C9_ground_state_at_zero:
  "orbital_100_eq 0 (Fin (pi / 2)) 0 = Fin ((1 / 1.0)\<^sup>2 * (1 / pi)) \<and>
   orbital_100_eq 0 (Fin (pi / 2)) 0 = Fin (1 / pi)"
  by (simp add: orbital_100_eq_def fl Let_def power_divide)

section \<open>Lists and the interleaving loop\<close>

lemma those_map_Some:
  "(\<And>x. x \<in> set xs \<Longrightarrow> f x = Some (g x)) \<Longrightarrow> those (map f xs) = Some (map g xs)"
  by (induction xs) simp_all

lemma length_concat_map_upt:
  "(\<And>u. u < n \<Longrightarrow> length (f u) = m) \<Longrightarrow> length (concat (map f [0..<n])) = n * m"
  by (induction n) simp_all

lemma nth_concat_map_upt:
  "(\<And>u. u < n \<Longrightarrow> length (f u) = m) \<Longrightarrow> u < n \<Longrightarrow> c < m \<Longrightarrow>
     concat (map f [0..<n]) ! (u * m + c) = f u ! c"
proof (induction n)
  case 0
  then show ?case by simp
next
  case (Suc n)
  have len: "length (concat (map f [0..<n])) = n * m"
    using Suc.prems(1) by (intro length_concat_map_upt) simp
  show ?case
  proof (cases "u < n")
    case True
    have "u * m + c < Suc u * m"
      using Suc.prems(3) by simp
    also have "\<dots> \<le> n * m"
      using True by (intro mult_le_mono1) simp
    finally have "u * m + c < n * m" .
    then show ?thesis
      using Suc True by (simp add: nth_append len)
  next
    case False
    with Suc.prems(2) have "u = n" by simp
    then show ?thesis by (simp add: nth_append len)
  qed
qed

lemma complete_loop_run:
  assumes "length sv = 3 * m" and "length sn = 3 * m" and "v \<le> m"
  shows "complete_loop sv sn cr cg cb (11 * m) (3 * v) (11 * v) acc =
    Some (acc @ concat (map (\<lambda>u.
      [sv ! (3 * u), sv ! (3 * u + 1), sv ! (3 * u + 2), cr, cg, cb, 0, 0,
       sn ! (3 * u), sn ! (3 * u + 1), sn ! (3 * u + 2)]) [v..<m]))"
  using assms
proof (induction "m - v" arbitrary: v acc)
  case 0
  then have "v = m" by simp
  then show ?case by (subst complete_loop.simps) simp
next
  case (Suc d)
  then have lt: "v < m" and d: "d = m - Suc v" and le: "Suc v \<le> m" by simp_all
  have ix: "3 * Suc v = 3 * v + 3" "11 * Suc v = 11 * v + 11" by simp_all
  let ?acc = "acc @ [sv ! (3 * v), sv ! (3 * v + 1), sv ! (3 * v + 2)] @ [cr, cg, cb] @ [0, 0] @
          [sn ! (3 * v), sn ! (3 * v + 1), sn ! (3 * v + 2)]"
  have step: "complete_loop sv sn cr cg cb (11 * m) (3 * v) (11 * v) acc =
     complete_loop sv sn cr cg cb (11 * m) (3 * v + 3) (11 * v + 11) ?acc"
    using lt Suc.prems(1,2) by (subst complete_loop.simps) (simp add: at_vec_def)
  have rest: "complete_loop sv sn cr cg cb (11 * m) (3 * v + 3) (11 * v + 11) ?acc =
    Some (?acc @ concat (map (\<lambda>u.
      [sv ! (3 * u), sv ! (3 * u + 1), sv ! (3 * u + 2), cr, cg, cb, 0, 0,
       sn ! (3 * u), sn ! (3 * u + 1), sn ! (3 * u + 2)]) [Suc v..<m]))"
    using Suc.hyps(1) [OF d Suc.prems(1) Suc.prems(2) le, of ?acc] unfolding ix .
  show ?case
    unfolding step rest using lt by (simp add: upt_conv_Cons)
qed

section \<open>The grid and the index list\<close>

lemma numSpheres_eq: "numSpheres = 1331"
  by (simp add: numSpheres_def fl)

lemma numSpheres_per_side_eq: "numSpheres_per_side = 11"
proof -
  have "root 3 (1331::real) = 11"
    by (rule real_root_pos_unique) simp_all
  then show ?thesis
    by (simp add: numSpheres_per_side_def numSpheres_eq fl)
qed

lemma step_eq: "step = Fin 1"
  by (simp add: step_def numSpheres_per_side_eq)

lemma center_eq: "center i = Fin (real i - 5)"
  by (simp add: center_def step_eq fl)

lemma length_singleSphere_IndicesVec: "length singleSphere_IndicesVec = 432"
  by code_simp

lemma singleSphere_IndicesVec_le: "list_all (\<lambda>v. v \<le> 98) singleSphere_IndicesVec"
  by code_simp

lemma singleSphere_IndicesVec_98: "98 \<in> set singleSphere_IndicesVec"
  by code_simp

lemma allSpheres_IndicesArr_eq:
  "allSpheres_IndicesArr =
     Some (map (\<lambda>p. singleSphere_IndicesVec ! (p mod 432) + 100 * (p div 432))
       [0..<numSpheres * 432])"
  unfolding allSpheres_IndicesArr_def length_singleSphere_IndicesVec
  by (rule those_map_Some)
    (simp add: at_vec_def length_singleSphere_IndicesVec NUM_VERTICES_PER_SPHERE_def)

section \<open>The vertices of one sphere\<close>

lemma those_all_Some:
  "(\<And>x. x \<in> set xs \<Longrightarrow> x \<noteq> None) \<Longrightarrow> those xs = Some (map the xs)"
  by (induction xs) fastforce+

lemma Suc_9: "Suc 9 = 10"
  by simp

lemma length_concat_same:
  "(\<And>x. x \<in> set xss \<Longrightarrow> length x = m) \<Longrightarrow> length (concat xss) = length xss * m"
  by (induction xss) simp_all

lemma length_sphereVertices: "length (sphereVertices x y z rad) = 300"
proof -
  have "length (sphereVertices x y z rad) = 10 * 30"
    unfolding sphereVertices_def sectorCount_def stackCount_def Suc_9
    by (intro length_concat_map_upt) (simp add: length_concat_map_upt [where m = 3])
  then show ?thesis by simp
qed

lemma length_sphereNormals: "length (sphereNormals rad) = 300"
proof -
  have "length (sphereNormals rad) = 10 * 30"
    unfolding sphereNormals_def sectorCount_def stackCount_def Let_def Suc_9
    by (intro length_concat_map_upt) (simp add: length_concat_map_upt [where m = 3])
  then show ?thesis by simp
qed

lemma vertex_index: "3 * u + c = (u div 10) * 30 + ((u mod 10) * 3 + c)"
  for u c :: nat
  by presburger

lemma nth_sphereVertices:
  assumes "u < 100" and "c < 3"
  shows "sphereVertices x y z rad ! (3 * u + c) =
    [x_local rad (u div 10) (u mod 10) + x,
     y_local rad (u div 10) (u mod 10) + y,
     z_local rad (u div 10) + z] ! c"
proof -
  let ?row = "\<lambda>i_local. concat (map (\<lambda>j_local.
         [x_local rad i_local j_local + x,
          y_local rad i_local j_local + y,
          z_local rad i_local + z]) [0..<10])"
  have len: "length (?row i) = 10 * 3" for i
    by (intro length_concat_map_upt) simp
  have "sphereVertices x y z rad ! ((u div 10) * 30 + ((u mod 10) * 3 + c)) =
      ?row (u div 10) ! ((u mod 10) * 3 + c)"
    unfolding sphereVertices_def sectorCount_def stackCount_def Suc_9
    using assms len by (intro nth_concat_map_upt) simp_all
  also have "\<dots> = [x_local rad (u div 10) (u mod 10) + x,
     y_local rad (u div 10) (u mod 10) + y,
     z_local rad (u div 10) + z] ! c"
    using assms by (intro nth_concat_map_upt) simp_all
  finally show ?thesis
    by (simp only: vertex_index [symmetric])
qed

lemma nth_sphereNormals:
  assumes "u < 100" and "c < 3"
  shows "sphereNormals rad ! (3 * u + c) =
    [x_local rad (u div 10) (u mod 10) * (1 / rad),
     y_local rad (u div 10) (u mod 10) * (1 / rad),
     z_local rad (u div 10) * (1 / rad)] ! c"
proof -
  let ?row = "\<lambda>i_local. concat (map (\<lambda>j_local.
         [x_local rad i_local j_local * (1 / rad),
          y_local rad i_local j_local * (1 / rad),
          z_local rad i_local * (1 / rad)]) [0..<10])"
  have len: "length (?row i) = 10 * 3" for i
    by (intro length_concat_map_upt) simp
  have "sphereNormals rad ! ((u div 10) * 30 + ((u mod 10) * 3 + c)) =
      ?row (u div 10) ! ((u mod 10) * 3 + c)"
    unfolding sphereNormals_def sectorCount_def stackCount_def Let_def Suc_9
    using assms len by (intro nth_concat_map_upt) simp_all
  also have "\<dots> = [x_local rad (u div 10) (u mod 10) * (1 / rad),
     y_local rad (u div 10) (u mod 10) * (1 / rad),
     z_local rad (u div 10) * (1 / rad)] ! c"
    using assms by (intro nth_concat_map_upt) simp_all
  finally show ?thesis
    by (simp only: vertex_index [symmetric])
qed

lemma completeSphereVertexVec_eq:
  assumes "length sv = 300" and "length sn = 300"
  shows "completeSphereVertexVec sv sn cr cg cb =
    Some (concat (map (\<lambda>u.
      [sv ! (3 * u), sv ! (3 * u + 1), sv ! (3 * u + 2), cr, cg, cb, 0, 0,
       sn ! (3 * u), sn ! (3 * u + 1), sn ! (3 * u + 2)]) [0..<100]))"
proof -
  have len: "nat (to_int (Fin (real (length sv) * 11.0 / 3))) = 11 * 100"
    by (simp add: assms)
  show ?thesis
    unfolding completeSphereVertexVec_def Let_def len
    using complete_loop_run [of sv 100 sn 0 cr cg cb "[]"] assms by simp
qed

lemma sphere_at_eq:
  "sphere_at orb i j k = Some (concat (map (vertex_record (sample orb i j k)) [0..<100]))"
proof -
  let ?s = "sample orb i j k"
  let ?sv = "sphereVertices (center_x ?s) (center_y ?s) (center_z ?s) (radius ?s)"
  let ?sn = "sphereNormals (radius ?s)"
  let ?rec = "\<lambda>u. [?sv ! (3 * u), ?sv ! (3 * u + 1), ?sv ! (3 * u + 2),
       red ?s, green ?s, blue ?s, 0, 0,
       ?sn ! (3 * u), ?sn ! (3 * u + 1), ?sn ! (3 * u + 2)]"
  have rec: "?rec u = vertex_record ?s u" if "u < 100" for u
    using that nth_sphereVertices [of u 0] nth_sphereVertices [of u 1] nth_sphereVertices [of u 2]
      nth_sphereNormals [of u 0] nth_sphereNormals [of u 1] nth_sphereNormals [of u 2]
    by (simp add: vertex_record_def sectorCount_def Let_def)
  have "sphere_at orb i j k = Some (concat (map ?rec [0..<100]))"
    unfolding sphere_at_def Let_def
    by (rule completeSphereVertexVec_eq) (simp_all add: length_sphereVertices length_sphereNormals)
  also have "map ?rec [0..<100] = map (vertex_record ?s) [0..<100]"
  proof (rule map_cong [OF refl])
    fix u :: nat
    assume "u \<in> set [0..<100]"
    then have "u < 100"
      by simp
    then show "?rec u = vertex_record ?s u"
      by (rule rec)
  qed
  finally show ?thesis .
qed

lemma length_vertex_record: "length (vertex_record s v) = 11"
  by (simp add: vertex_record_def Let_def)

section \<open>The arrays of \<open>main\<close>\<close>

text \<open>The vertex vectors of all spheres, in the order of the three grid loops.\<close>

lemma allSpheres_VertexVec_eq:
  "allSpheres_VertexVec orb =
     Some (concat (map (\<lambda>i. concat (map (\<lambda>j. map (\<lambda>k.
        concat (map (vertex_record (sample orb i j k)) [0..<100]))
       [0..<11]) [0..<11])) [0..<11]))"
proof -
  let ?grid = "concat (map (\<lambda>i. concat (map (\<lambda>j. map (\<lambda>k. sphere_at orb i j k)
       [0..<11]) [0..<11])) [0..<11])"
  have "those ?grid = Some (map the ?grid)"
    by (rule those_all_Some) (auto simp add: sphere_at_eq)
  also have "map the ?grid = concat (map (\<lambda>i. concat (map (\<lambda>j. map (\<lambda>k.
        concat (map (vertex_record (sample orb i j k)) [0..<100]))
       [0..<11]) [0..<11])) [0..<11])"
    by (simp add: map_concat o_def sphere_at_eq)
  finally show ?thesis
    by (simp add: allSpheres_VertexVec_def numSpheres_per_side_eq)
qed

lemma length_sphere_vec: "length (concat (map (vertex_record s) [0..<100])) = 1100"
proof -
  have "length (concat (map (vertex_record s) [0..<100])) = 100 * 11"
    by (intro length_concat_map_upt) (rule length_vertex_record)
  then show ?thesis by simp
qed

lemma allSpheres_VertexArr_eq:
  assumes "allSpheres_VertexVec orb = Some vecs"
  shows "allSpheres_VertexArr vecs = Some (concat vecs)"
    and "length (concat vecs) = 1331 * 100 * 11"
proof -
  let ?V = "\<lambda>i j k. concat (map (vertex_record (sample orb i j k)) [0..<100])"
  have vecs: "vecs = concat (map (\<lambda>i. concat (map (\<lambda>j. map (\<lambda>k. ?V i j k)
       [0..<11]) [0..<11])) [0..<11])"
    using assms by (simp add: allSpheres_VertexVec_eq)
  have "length vecs = 11 * (11 * 11)"
    unfolding vecs
    by (intro length_concat_map_upt) simp
  then have n: "length vecs = 1331"
    by simp
  have each: "length x = 1100" if "x \<in> set vecs" for x
    using that unfolding vecs by (auto simp add: length_sphere_vec)
  then have "length (concat vecs) = length vecs * 1100"
    by (rule length_concat_same)
  then show len: "length (concat vecs) = 1331 * 100 * 11"
    by (simp add: n)
  have "vecs ! 0 \<in> set vecs"
    using n by (intro nth_mem) simp
  then have "length (vecs ! 0) = 1100"
    by (rule each)
  then show "allSpheres_VertexArr vecs = Some (concat vecs)"
    using n len by (simp add: allSpheres_VertexArr_def at_vec_def numSpheres_eq)
qed

text \<open>\<open>main\<close> builds the buffers for every triple that passes the check and has a branch.\<close>

lemma main_builds:
  assumes "\<not> (n <s l + 1 \<or> abs_int l <s abs_int ml \<or> l <s 0)"
    and "select_orbital n l ml = Some orb"
  shows "\<exists>b. main n l ml True = Inr b"
proof -
  obtain vecs where v: "allSpheres_VertexVec orb = Some vecs"
    by (simp add: allSpheres_VertexVec_eq)
  show ?thesis
    using assms v allSpheres_VertexArr_eq(1) [OF v]
    by (simp add: main_def allSpheres_IndicesArr_eq)
qed

lemma main_1_0_0: "main 1 0 0 True = Inr (projr (main 1 0 0 True))"
proof -
  have "\<exists>b. main 1 0 0 True = Inr b"
    by (rule main_builds [where orb = Orb100])
      (simp_all add: abs_int_def word_sless_alt select_orbital_def)
  then show ?thesis
    by auto
qed

lemma main_2_0_0: "main 2 0 0 True = Inr (projr (main 2 0 0 True))"
proof -
  have "\<exists>b. main 2 0 0 True = Inr b"
    by (rule main_builds [where orb = Orb200])
      (simp_all add: abs_int_def word_sless_alt select_orbital_def)
  then show ?thesis
    by auto
qed

lemma main_Inr:
  assumes "main n l ml w = Inr b"
  shows "\<exists>orb vecs. select_orbital n l ml = Some orb \<and>
    allSpheres_VertexVec orb = Some vecs \<and>
    allSpheres_VertexArr vecs = Some (vertexArr b) \<and>
    allSpheres_IndicesArr = Some (indicesArr b) \<and>
    printed b = scale_factor orb"
  using assms by (auto simp add: main_def split: if_splits option.splits)

section \<open>The index array\<close>

lemma indicesArr_eq:
  assumes "main n l ml w = Inr b"
  shows "indicesArr b =
      map (\<lambda>p. singleSphere_IndicesVec ! (p mod 432) + 100 * (p div 432)) [0..<1331 * 432]"
proof -
  from main_Inr [OF assms] have "allSpheres_IndicesArr = Some (indicesArr b)"
    by blast
  then show ?thesis
    by (simp add: allSpheres_IndicesArr_eq numSpheres_eq)
qed

lemma length_indicesArr:
  assumes "main n l ml w = Inr b"
  shows "length (indicesArr b) = 1331 * 432"
  by (subst indicesArr_eq [OF assms]) simp

lemma nth_indicesArr:
  assumes "main n l ml w = Inr b" and "p < 1331 * 432"
  shows "indicesArr b ! p = singleSphere_IndicesVec ! (p mod 432) + 100 * (p div 432)"
  using assms(2) by (subst indicesArr_eq [OF assms(1)]) simp

lemma singleSphere_IndicesVec_1: "singleSphere_IndicesVec ! Suc 0 = 10"
  by code_simp

text \<open>
  C2: for every accepted state, the entry at position \<open>p\<close> of the index array is the
  entry \<open>p mod localLength\<close> of the local index list plus 100 times the instance number
  \<open>p div localLength\<close>; every index is below \<open>instanceCount \<times> 100\<close>, the largest local
  index being 98.
\<close>

theorem C2_index_offsets:
  assumes "main n l ml w = Inr b" and "p < length (indicesArr b)"
  shows "indicesArr b ! p =
           singleSphere_IndicesVec ! (p mod length singleSphere_IndicesVec) +
           100 * (p div length singleSphere_IndicesVec) \<and>
         p div length singleSphere_IndicesVec < numSpheres \<and>
         indicesArr b ! p < numSpheres * 100 \<and>
         Max (set singleSphere_IndicesVec) = 98"
proof -
  from assms(2) have p: "p < 1331 * 432"
    by (simp add: length_indicesArr [OF assms(1)])
  then have val: "indicesArr b ! p = singleSphere_IndicesVec ! (p mod 432) + 100 * (p div 432)"
    by (rule nth_indicesArr [OF assms(1)])
  have "p mod 432 < length singleSphere_IndicesVec"
    by (simp add: length_singleSphere_IndicesVec)
  then have local: "singleSphere_IndicesVec ! (p mod 432) \<le> 98"
    using singleSphere_IndicesVec_le by (simp add: list_all_length)
  have inst: "p div 432 < 1331"
    using p by (simp add: less_mult_imp_div_less)
  from local inst have "indicesArr b ! p < 1331 * 100"
    unfolding val by linarith
  moreover have "Max (set singleSphere_IndicesVec) = 98"
  proof (rule Max_eqI)
    show "finite (set singleSphere_IndicesVec)"
      by simp
    show "98 \<in> set singleSphere_IndicesVec"
      by (rule singleSphere_IndicesVec_98)
    show "y \<le> 98" if "y \<in> set singleSphere_IndicesVec" for y
      using that singleSphere_IndicesVec_le by (simp add: list_all_iff)
  qed
  ultimately show ?thesis
    using val inst by (simp add: length_singleSphere_IndicesVec numSpheres_eq)
qed

theorem C2_index_offsets_witness:
  "main 1 0 0 True = Inr (projr (main 1 0 0 True)) \<and>
   433 < length (indicesArr (projr (main 1 0 0 True))) \<and>
   indicesArr (projr (main 1 0 0 True)) ! 433 = 110 \<and>
   indicesArr (projr (main 1 0 0 True)) ! 433 < 133100"
proof -
  have len: "433 < length (indicesArr (projr (main 1 0 0 True)))"
    using length_indicesArr [OF main_1_0_0] by simp
  show ?thesis
    using C2_index_offsets [OF main_1_0_0 len] main_1_0_0 len
    by (simp add: length_singleSphere_IndicesVec singleSphere_IndicesVec_1 numSpheres_eq)
qed

text \<open>The index array is the local index list once for each sphere, moved on by 100.\<close>

lemma indicesArr_concat:
  assumes "main n l ml w = Inr b"
  shows "indicesArr b =
    concat (map (\<lambda>s. map (\<lambda>v. v + 100 * s) singleSphere_IndicesVec) [0..<1331])"
proof (rule nth_equalityI)
  let ?blocks = "\<lambda>s. map (\<lambda>v. v + 100 * s) singleSphere_IndicesVec"
  have blen: "length (?blocks s) = 432" for s
    by (simp add: length_singleSphere_IndicesVec)
  have clen: "length (concat (map ?blocks [0..<1331])) = 1331 * 432"
    by (intro length_concat_map_upt) (rule blen)
  show "length (indicesArr b) = length (concat (map ?blocks [0..<1331]))"
    using length_indicesArr [OF assms] clen by simp
  show "indicesArr b ! p = concat (map ?blocks [0..<1331]) ! p" if "p < length (indicesArr b)" for p
  proof -
    have p: "p < 1331 * 432"
      using that length_indicesArr [OF assms] by simp
    then have inst: "p div 432 < 1331"
      by (simp add: less_mult_imp_div_less)
    have "concat (map ?blocks [0..<1331]) ! (p div 432 * 432 + p mod 432) =
        ?blocks (p div 432) ! (p mod 432)"
      using inst by (intro nth_concat_map_upt) (simp_all add: length_singleSphere_IndicesVec)
    then have "concat (map ?blocks [0..<1331]) ! p =
        singleSphere_IndicesVec ! (p mod 432) + 100 * (p div 432)"
      by (simp add: length_singleSphere_IndicesVec)
    then show ?thesis
      using nth_indicesArr [OF assms p] by simp
  qed
qed

section \<open>The vertex array\<close>

lemma vertexArr_eq:
  assumes "main n l ml w = Inr b"
  shows "\<exists>orb. select_orbital n l ml = Some orb \<and> printed b = scale_factor orb \<and>
    vertexArr b =
      concat (concat (map (\<lambda>i. concat (map (\<lambda>j. map (\<lambda>k.
        concat (map (vertex_record (sample orb i j k)) [0..<100]))
       [0..<11]) [0..<11])) [0..<11]))"
    and "length (vertexArr b) = 1331 * 100 * 11"
proof -
  from main_Inr [OF assms] obtain orb vecs where sel: "select_orbital n l ml = Some orb"
    and vecs: "allSpheres_VertexVec orb = Some vecs"
    and arr: "allSpheres_VertexArr vecs = Some (vertexArr b)"
    and pr: "printed b = scale_factor orb"
    by blast
  from arr allSpheres_VertexArr_eq(1) [OF vecs] have eq: "vertexArr b = concat vecs"
    by simp
  with allSpheres_VertexArr_eq(2) [OF vecs] show "length (vertexArr b) = 1331 * 100 * 11"
    by simp
  from vecs have "vecs = concat (map (\<lambda>i. concat (map (\<lambda>j. map (\<lambda>k.
        concat (map (vertex_record (sample orb i j k)) [0..<100]))
       [0..<11]) [0..<11])) [0..<11])"
    by (simp add: allSpheres_VertexVec_eq)
  with sel pr eq show "\<exists>orb. select_orbital n l ml = Some orb \<and> printed b = scale_factor orb \<and>
    vertexArr b =
      concat (concat (map (\<lambda>i. concat (map (\<lambda>j. map (\<lambda>k.
        concat (map (vertex_record (sample orb i j k)) [0..<100]))
       [0..<11]) [0..<11])) [0..<11]))"
    by blast
qed

text \<open>The place of each value in the vertex array.\<close>

lemma concat_concat: "concat (concat xss) = concat (map concat xss)"
  by (induction xss) simp_all

lemma nth_vertexArr:
  assumes "main n l ml w = Inr b" and "select_orbital n l ml = Some orb"
    and "i < 11" and "j < 11" and "k < 11" and "v < 100" and "c < 11"
  shows "vertexArr b ! (i * 133100 + (j * 12100 + (k * 1100 + (v * 11 + c)))) =
    vertex_record (sample orb i j k) v ! c"
proof -
  let ?V = "\<lambda>i j k. concat (map (vertex_record (sample orb i j k)) [0..<100])"
  let ?J = "\<lambda>i j. concat (map (\<lambda>k. ?V i j k) [0..<11])"
  let ?I = "\<lambda>i. concat (map (\<lambda>j. ?J i j) [0..<11])"
  from vertexArr_eq(1) [OF assms(1)] assms(2)
  have "vertexArr b = concat (concat (map (\<lambda>i. concat (map (\<lambda>j. map (\<lambda>k. ?V i j k)
       [0..<11]) [0..<11])) [0..<11]))"
    by simp
  then have arr: "vertexArr b = concat (map ?I [0..<11])"
    by (simp add: concat_concat map_concat o_def)
  have lenV: "length (?V i j k) = 1100" for i j k
    by (rule length_sphere_vec)
  have lenJ: "length (?J i j) = 11 * 1100" for i j
    by (intro length_concat_map_upt lenV)
  have lenI: "length (?I i) = 11 * (11 * 1100)" for i
    by (intro length_concat_map_upt lenJ)
  have q3: "v * 11 + c < 1100"
    using assms(6,7) by simp
  have q2: "k * 1100 + (v * 11 + c) < 11 * 1100"
    using assms(5) q3 by simp
  have q1: "j * (11 * 1100) + (k * 1100 + (v * 11 + c)) < 11 * (11 * 1100)"
    using assms(4) q2 by simp
  have "concat (map ?I [0..<11]) ! (i * (11 * (11 * 1100)) + (j * (11 * 1100) + (k * 1100 + (v * 11 + c)))) =
      ?I i ! (j * (11 * 1100) + (k * 1100 + (v * 11 + c)))"
    using assms(3) q1 by (intro nth_concat_map_upt lenI)
  also have "\<dots> = ?J i j ! (k * 1100 + (v * 11 + c))"
    using assms(4) q2 by (intro nth_concat_map_upt lenJ)
  also have "\<dots> = ?V i j k ! (v * 11 + c)"
    using assms(5) q3 by (intro nth_concat_map_upt lenV)
  also have "\<dots> = vertex_record (sample orb i j k) v ! c"
    using assms(6,7) by (intro nth_concat_map_upt length_vertex_record)
  finally show ?thesis
    by (simp add: arr)
qed

text \<open>
  C6: for every accepted state, over the \<open>N = 1331\<close> instances, the vertex array is the
  concatenation of each instance's 100 vertex records of 11 values, in the order of the
  grid loops (\<open>i\<close> outermost, \<open>k\<close> innermost), of length \<open>N \<times> 100 \<times> 11\<close>; the index
  array is the concatenation of the instances' index lists, each moved on by the
  instance's offset. Its length is \<open>N \<times> 432\<close>: the local list holds 144 triangles of
  three indices each; \<open>N \<times> 144\<close> is the number of triangles, not the length of the array.
\<close>

theorem C6_buffers:
  assumes "main n l ml w = Inr b"
  shows "(\<exists>orb. select_orbital n l ml = Some orb \<and>
      vertexArr b =
        concat (concat (map (\<lambda>i. concat (map (\<lambda>j. map (\<lambda>k.
          concat (map (vertex_record (sample orb i j k)) [0..<100]))
         [0..<11]) [0..<11])) [0..<11]))) \<and>
    (\<forall>s v. length (vertex_record s v) = 11) \<and>
    numSpheres = 1331 \<and>
    length (vertexArr b) = numSpheres * 100 * 11 \<and>
    indicesArr b =
      concat (map (\<lambda>s. map (\<lambda>v. v + 100 * s) singleSphere_IndicesVec) [0..<numSpheres]) \<and>
    length singleSphere_IndicesVec = 3 * 144 \<and>
    length (indicesArr b) = numSpheres * (3 * 144)"
  using vertexArr_eq [OF assms] indicesArr_concat [OF assms] length_indicesArr [OF assms]
  by (simp add: numSpheres_eq length_vertex_record length_singleSphere_IndicesVec) blast

theorem C6_buffers_witness:
  "main 1 0 0 True = Inr (projr (main 1 0 0 True)) \<and>
   length (vertexArr (projr (main 1 0 0 True))) = 1464100 \<and>
   length (indicesArr (projr (main 1 0 0 True))) = 574992"
proof -
  note buffers = C6_buffers [OF main_1_0_0]
  from buffers have v: "length (vertexArr (projr (main 1 0 0 True))) = numSpheres * 100 * 11"
    by blast
  from buffers have i: "length (indicesArr (projr (main 1 0 0 True))) = numSpheres * (3 * 144)"
    by blast
  show ?thesis
    using v i main_1_0_0 by (simp add: numSpheres_eq)
qed

theorem C6_index_length_counterexample:
  "main 1 0 0 True = Inr (projr (main 1 0 0 True)) \<and>
   length (indicesArr (projr (main 1 0 0 True))) \<noteq> numSpheres * 144"
  using length_indicesArr [OF main_1_0_0] main_1_0_0
  by (simp add: numSpheres_eq)

section \<open>Densities\<close>

lemma floor_m1: "\<lfloor>- 1 :: real\<rfloor> = - 1"
  by (metis floor_uminus_of_int of_int_1)

lemma pow_2: "pow w 2 = (case w of Fin x \<Rightarrow> Fin (x\<^sup>2) | NonReal \<Rightarrow> NonReal)"
  by (cases w) (simp_all add: fl)

lemma pow_2_nonneg: "pow w 2 = Fin d \<Longrightarrow> 0 \<le> d"
  by (cases w) (auto simp add: pow_2)

lemma evaluator_nonneg: "evaluator orb r theta phi = Fin d \<Longrightarrow> 0 \<le> d"
  by (cases orb)
    (simp_all add: orbital_100_eq_def orbital_200_eq_def orbital_210_eq_def orbital_211_eq_def
      orbital_300_eq_def orbital_310_eq_def orbital_311_eq_def orbital_320_eq_def
      orbital_321_eq_def orbital_322_eq_def Let_def pow_2_nonneg)

lemma probDensity_nonneg: "probDensity orb r theta phi = Fin d \<Longrightarrow> 0 \<le> d"
  by (cases orb) (simp_all add: evaluator_nonneg [of Orb100, simplified]
     evaluator_nonneg [of Orb200, simplified] evaluator_nonneg [of Orb210, simplified]
     evaluator_nonneg [of Orb211, simplified] evaluator_nonneg [of Orb300, simplified]
     evaluator_nonneg [of Orb310, simplified] evaluator_nonneg [of Orb311, simplified]
     evaluator_nonneg [of Orb320, simplified] evaluator_nonneg [of Orb321, simplified]
     evaluator_nonneg [of Orb322, simplified])

lemma probDensity_evaluator:
  "probDensity orb r theta phi =
     evaluator orb (case orb of Orb100 \<Rightarrow> r / Fin 5.0 | Orb200 \<Rightarrow> r / Fin 2.5 | Orb210 \<Rightarrow> r
       | Orb211 \<Rightarrow> r / Fin 1.0 | Orb300 \<Rightarrow> r / Fin 0.5 | Orb310 \<Rightarrow> r / Fin 0.666666666
       | Orb311 \<Rightarrow> r / Fin 0.666666666666 | Orb320 \<Rightarrow> r / Fin 0.4 | Orb321 \<Rightarrow> r / Fin 0.5
       | Orb322 \<Rightarrow> r / Fin 0.5) theta phi"
  by (cases orb) simp_all

lemma red_le_1:
  "sphereColor_red orb pd = Fin rv \<Longrightarrow> 0 \<le> (case pd of Fin d \<Rightarrow> d | NonReal \<Rightarrow> 0) \<Longrightarrow>
     rv \<le> 1"
  by (cases orb; cases pd) (auto simp add: fl)

lemma green_ge_0:
  "sphereColor_green orb pd = Fin gv \<Longrightarrow> 0 \<le> (case pd of Fin d \<Rightarrow> d | NonReal \<Rightarrow> 0) \<Longrightarrow>
     0 \<le> gv"
  by (cases orb; cases pd) (auto simp add: fl)

lemma sample_simps:
  "center_x (sample orb i j k) = center i"
  "center_y (sample orb i j k) = center j"
  "center_z (sample orb i j k) = center k"
  "density (sample orb i j k) =
     probDensity orb (r_of (center i) (center j) (center k))
       (theta_of (center i) (center j) (center k)) (phi_of (center i) (center j) (center k))"
  "radius (sample orb i j k) = sphereRadius orb step (density (sample orb i j k))"
  "red (sample orb i j k) = sphereColor_red orb (density (sample orb i j k))"
  "green (sample orb i j k) = sphereColor_green orb (density (sample orb i j k))"
  "blue (sample orb i j k) = sphereColor_blue"
  by (simp_all add: sample_def Let_def)

lemma r_of_0: "r_of 0 0 0 = 0" "r_of (Fin 0) (Fin 0) (Fin 0) = Fin 0"
  by (simp_all add: r_of_def fl)

lemma theta_of_0: "theta_of 0 0 0 = NonReal" "theta_of (Fin 0) (Fin 0) (Fin 0) = NonReal"
  by (simp_all add: theta_of_def fl)

lemma phi_of_0: "phi_of 0 0 0 = 0" "phi_of (Fin 0) (Fin 0) (Fin 0) = Fin 0"
  by (simp_all add: phi_of_def fl)

lemma density_300_origin: "density (sample Orb300 5 5 5) = Fin 116.64"
  by (simp add: sample_simps center_eq r_of_0 theta_of_0 phi_of_0 orbital_300_eq_def Let_def
      floor_m1 power_int_minus fl pow_2 power2_eq_square)

lemma density_210_origin: "density (sample Orb210 5 5 5) = NonReal"
  by (simp add: sample_simps center_eq r_of_0 theta_of_0 phi_of_0 orbital_210_eq_def Let_def fl
      pow_2)

lemma center_0_iff: "center i = 0 \<longleftrightarrow> i = 5"
  by (auto simp add: center_eq fl)

section \<open>The grid samples and their colors\<close>



text \<open>
  C5: for every grid sample of every accepted state, \<open>radius = (step/1.5) \<cdot> dN\<close>,
  \<open>red = 1 - dN\<close>, \<open>green = dN\<close> and \<open>blue = 0.2\<close>, where \<open>dN\<close> is the density
  divided by 0.31 for the ground state and the density itself for every other state.
  Nothing is clamped: at the origin of the state (3,0,0) the density is 116.64, so
  green is 116.64, red is -115.64 and the radius is 77.76.
\<close>

theorem C5_mapper:
  "(let s = sample orb i j k;
        densityNormalized = (if orb = Orb100 then density s / Fin 0.31 else density s)
    in radius s = (step / Fin 1.5) * densityNormalized \<and>
       red s = 1 - densityNormalized \<and>
       green s = densityNormalized \<and>
       blue s = Fin 0.2) \<and>
   density (sample orb i j k) =
     probDensity orb (r_of (center i) (center j) (center k))
       (theta_of (center i) (center j) (center k)) (phi_of (center i) (center j) (center k)) \<and>
   select_orbital 1 0 0 = Some Orb100 \<and>
   density (sample Orb300 5 5 5) = Fin 116.64 \<and>
   green (sample Orb300 5 5 5) = Fin 116.64 \<and>
   red (sample Orb300 5 5 5) = Fin (- 115.64) \<and>
   radius (sample Orb300 5 5 5) = Fin 77.76"
proof -
  let ?s = "sample orb i j k"
  let ?dN = "if orb = Orb100 then density ?s / Fin 0.31 else density ?s"
  have "sphereRadius orb step pd =
      (step / Fin 1.5) * (if orb = Orb100 then pd / Fin 0.31 else pd)" for pd
    by (cases orb; cases pd) (simp_all add: step_eq)
  then have f1: "radius ?s = (step / Fin 1.5) * ?dN"
    by (simp only: sample_simps)
  have "sphereColor_red orb pd = 1 - (if orb = Orb100 then pd / Fin 0.31 else pd)" for pd
    by (cases orb; cases pd) (simp_all add: fl)
  then have f2: "red ?s = 1 - ?dN"
    by (simp only: sample_simps)
  have "sphereColor_green orb pd = (if orb = Orb100 then pd / Fin 0.31 else pd)" for pd
    by (cases orb; cases pd) (simp_all add: fl)
  then have f3: "green ?s = ?dN"
    by (simp only: sample_simps)
  have f4: "blue ?s = Fin 0.2"
    by (simp add: sample_simps sphereColor_blue_def)
  have f5: "select_orbital 1 0 0 = Some Orb100"
    by (simp add: select_orbital_def)
  have f6: "green (sample Orb300 5 5 5) = Fin 116.64"
    "red (sample Orb300 5 5 5) = Fin (- 115.64)"
    "radius (sample Orb300 5 5 5) = Fin 77.76"
    by (simp_all add: sample_simps(5-7) density_300_origin step_eq fl)
  show ?thesis
    unfolding Let_def
    by (intro conjI) (fact f1 f2 f3 f4 f5 f6 sample_simps(4) density_300_origin)+
qed

text \<open>
  C8: on the fixed grid exactly one sample has its center at the origin, the one with
  \<open>i = j = k = 5\<close>. There \<open>r_of\<close> returns 0 and \<open>theta_of\<close> computes \<open>acos(z/0)\<close>, a
  division by zero, whose result is not a number; this value goes to the density
  function (for the state (2,1,0), whose function uses it, the density is not a number
  either).
\<close>

theorem C8_origin_sample:
  "(center i = 0 \<and> center j = 0 \<and> center k = 0 \<longleftrightarrow> i = 5 \<and> j = 5 \<and> k = 5) \<and>
   5 < numSpheres_per_side \<and>
   r_of 0 0 0 = 0 \<and>
   theta_of 0 0 0 = acos (0 / 0) \<and> (0 :: GLfloat) / 0 = NonReal \<and>
   theta_of 0 0 0 = NonReal \<and>
   density (sample orb 5 5 5) = probDensity orb 0 NonReal (phi_of 0 0 0) \<and>
   density (sample Orb210 5 5 5) = NonReal"
proof -
  have "center 5 = 0"
    by (simp add: center_0_iff)
  then have "density (sample orb 5 5 5) = probDensity orb 0 NonReal (phi_of 0 0 0)"
    by (simp add: sample_simps(4) r_of_0 theta_of_0)
  moreover have "theta_of 0 0 0 = acos (0 / 0)" "(0 :: GLfloat) / 0 = NonReal"
    by (simp_all add: theta_of_def fl)
  ultimately show ?thesis
    using density_210_origin
    by (simp add: center_0_iff numSpheres_per_side_eq r_of_0 theta_of_0)
qed

text \<open>
  C10: each of the ten density functions returns the square of a real amplitude, so a
  result that is a real number is not negative; hence, for every grid sample (its
  density is the value of the branch's function), a red component that is a real number
  is at most 1 and a green one at least 0: the color can leave \<open>[0, 1]\<close> only as a green
  above 1 or a red below 0.
\<close>

theorem C10_density_nonneg:
  "(evaluator orb r theta phi = Fin d \<longrightarrow> 0 \<le> d) \<and>
   (\<exists>r'. probDensity orb r theta phi = evaluator orb r' theta phi) \<and>
   (density (sample orb i j k) = Fin pd \<longrightarrow> 0 \<le> pd) \<and>
   (red (sample orb i j k) = Fin rv \<longrightarrow> rv \<le> 1) \<and>
   (green (sample orb i j k) = Fin gv \<longrightarrow> 0 \<le> gv)"
proof -
  have call: "\<exists>r'. probDensity orb r theta phi = evaluator orb r' theta phi"
    by (subst probDensity_evaluator) (rule exI, rule refl)
  have "0 \<le> (case density (sample orb i j k) of Fin d \<Rightarrow> d | NonReal \<Rightarrow> 0)"
    by (cases "density (sample orb i j k)") (auto simp add: sample_simps dest: probDensity_nonneg)
  then have "(evaluator orb r theta phi = Fin d \<longrightarrow> 0 \<le> d) \<and>
   (density (sample orb i j k) = Fin pd \<longrightarrow> 0 \<le> pd) \<and>
   (red (sample orb i j k) = Fin rv \<longrightarrow> rv \<le> 1) \<and>
   (green (sample orb i j k) = Fin gv \<longrightarrow> 0 \<le> gv)"
    by (auto simp add: sample_simps(6,7) dest: evaluator_nonneg red_le_1 green_ge_0)
  with call show ?thesis
    by blast
qed

lemma evaluator_300_0: "evaluator Orb300 0 0 0 = Fin 116.64"
  by (simp add: orbital_300_eq_def Let_def floor_m1 power_int_minus fl pow_2 power2_eq_square)

theorem C10_density_nonneg_witness:
  "evaluator Orb300 0 0 0 = Fin 116.64 \<and> (0::real) \<le> 116.64 \<and>
   density (sample Orb300 5 5 5) = Fin 116.64 \<and>
   red (sample Orb300 5 5 5) = Fin (- 115.64) \<and> (- 115.64 :: real) \<le> 1 \<and>
   green (sample Orb300 5 5 5) = Fin 116.64"
proof -
  have c: "green (sample Orb300 5 5 5) = Fin 116.64" "red (sample Orb300 5 5 5) = Fin (- 115.64)"
    by (simp_all add: sample_simps(6,7) density_300_origin fl)
  show ?thesis
    using C10_density_nonneg [of Orb300 0 0 0 "116.64" 5 5 5 "116.64" "- 115.64" "116.64"]
      evaluator_300_0 density_300_origin c
    by simp
qed

section \<open>The sphere mesh\<close>

lemma sphere_point_norm:
  "(r * cos a * cos b)\<^sup>2 + (r * cos a * sin b)\<^sup>2 + (r * sin a)\<^sup>2 = r\<^sup>2"
  for r a b :: real
  by (simp add: cos_squared_eq algebra_simps)

lemma stackAngle_eq: "stackAngle i = Fin (pi / 2 - real i * (pi / 9))"
  by (simp add: stackAngle_def stackStep_def stackCount_def fl)

lemma sectorAngle_eq: "sectorAngle j = Fin (real j * (2 * pi / 9))"
  by (simp add: sectorAngle_def sectorStep_def sectorCount_def fl)

lemma local_eq:
  "x_local (Fin rad) i j = Fin (rad * cos (pi / 2 - real i * (pi / 9)) * cos (real j * (2 * pi / 9)))"
  "y_local (Fin rad) i j = Fin (rad * cos (pi / 2 - real i * (pi / 9)) * sin (real j * (2 * pi / 9)))"
  "z_local (Fin rad) i = Fin (rad * sin (pi / 2 - real i * (pi / 9)))"
  by (simp_all add: x_local_def y_local_def z_local_def xy_local_def cosf_def sinf_def
      stackAngle_eq sectorAngle_eq)



lemma sqrt_25: "sqrt 25 = 5"
  by (rule real_sqrt_unique) simp_all

lemma orbital_200_eq_2: "orbital_200_eq (Fin 2) theta phi = Fin 0"
  by (simp add: orbital_200_eq_def fl Let_def)

lemma radius_200_10_5_5: "radius (sample Orb200 10 5 5) = Fin 0"
  by (simp add: sample_simps center_eq r_of_def sqrt_25 orbital_200_eq_2 step_eq)

text \<open>
  C7: the normal stored for a vertex is its local position (the position less the center
  of the sphere) times \<open>1/radius\<close>, and it is a unit vector, the local position having
  the length of the radius. The division needs a radius that is a real number other
  than zero: for a sphere of radius 0 the factor \<open>1.0f / sphereRadius\<close> is a division
  by zero and the normal is not a number.
\<close>

theorem C7_normals:
  fixes cx cy cz rad :: real
  assumes "v < 100" and "rad \<noteq> 0"
  shows "\<exists>px py pz nx ny nz.
    sphereVertices (Fin cx) (Fin cy) (Fin cz) (Fin rad) ! (3 * v) = Fin px \<and>
    sphereVertices (Fin cx) (Fin cy) (Fin cz) (Fin rad) ! (3 * v + 1) = Fin py \<and>
    sphereVertices (Fin cx) (Fin cy) (Fin cz) (Fin rad) ! (3 * v + 2) = Fin pz \<and>
    sphereNormals (Fin rad) ! (3 * v) = Fin nx \<and>
    sphereNormals (Fin rad) ! (3 * v + 1) = Fin ny \<and>
    sphereNormals (Fin rad) ! (3 * v + 2) = Fin nz \<and>
    nx = (px - cx) * (1 / rad) \<and> ny = (py - cy) * (1 / rad) \<and> nz = (pz - cz) * (1 / rad) \<and>
    sqrt ((px - cx)\<^sup>2 + (py - cy)\<^sup>2 + (pz - cz)\<^sup>2) = \<bar>rad\<bar> \<and>
    sqrt (nx\<^sup>2 + ny\<^sup>2 + nz\<^sup>2) = 1"
proof -
  let ?a = "pi / 2 - real (v div 10) * (pi / 9)"
  let ?b = "real (v mod 10) * (2 * pi / 9)"
  let ?x = "rad * cos ?a * cos ?b" and ?y = "rad * cos ?a * sin ?b" and ?z = "rad * sin ?a"
  have p: "sphereVertices (Fin cx) (Fin cy) (Fin cz) (Fin rad) ! (3 * v) = Fin (?x + cx)"
    "sphereVertices (Fin cx) (Fin cy) (Fin cz) (Fin rad) ! (3 * v + 1) = Fin (?y + cy)"
    "sphereVertices (Fin cx) (Fin cy) (Fin cz) (Fin rad) ! (3 * v + 2) = Fin (?z + cz)"
    using nth_sphereVertices [OF assms(1), of 0 "Fin cx" "Fin cy" "Fin cz" "Fin rad"]
      nth_sphereVertices [OF assms(1), of 1 "Fin cx" "Fin cy" "Fin cz" "Fin rad"]
      nth_sphereVertices [OF assms(1), of 2 "Fin cx" "Fin cy" "Fin cz" "Fin rad"]
    by (simp_all add: local_eq)
  have n: "sphereNormals (Fin rad) ! (3 * v) = Fin (?x * (1 / rad))"
    "sphereNormals (Fin rad) ! (3 * v + 1) = Fin (?y * (1 / rad))"
    "sphereNormals (Fin rad) ! (3 * v + 2) = Fin (?z * (1 / rad))"
    using nth_sphereNormals [OF assms(1), of 0 "Fin rad"]
      nth_sphereNormals [OF assms(1), of 1 "Fin rad"]
      nth_sphereNormals [OF assms(1), of 2 "Fin rad"] assms(2)
    by (simp_all add: local_eq fl)
  have len: "sqrt (?x\<^sup>2 + ?y\<^sup>2 + ?z\<^sup>2) = \<bar>rad\<bar>"
    by (simp only: sphere_point_norm real_sqrt_abs)
  have "(?x * (1 / rad))\<^sup>2 + (?y * (1 / rad))\<^sup>2 + (?z * (1 / rad))\<^sup>2 =
      (?x\<^sup>2 + ?y\<^sup>2 + ?z\<^sup>2) * (1 / rad)\<^sup>2"
    by (simp only: power_mult_distrib distrib_right)
  also have "\<dots> = 1"
    using assms(2) by (simp only: sphere_point_norm) (simp add: power_divide)
  finally have unit: "sqrt ((?x * (1 / rad))\<^sup>2 + (?y * (1 / rad))\<^sup>2 + (?z * (1 / rad))\<^sup>2) = 1"
    by simp
  show ?thesis
    apply (rule exI [of _ "?x + cx"], rule exI [of _ "?y + cy"], rule exI [of _ "?z + cz"])
    apply (rule exI [of _ "?x * (1 / rad)"], rule exI [of _ "?y * (1 / rad)"],
        rule exI [of _ "?z * (1 / rad)"])
    using p n len unit by simp
qed

theorem C7_normals_witness:
  "(0::nat) < 100 \<and> (1::real) \<noteq> 0 \<and>
   (\<exists>px py pz nx ny nz.
    sphereVertices (Fin 0) (Fin 0) (Fin 0) (Fin 1) ! (3 * 0) = Fin px \<and>
    sphereVertices (Fin 0) (Fin 0) (Fin 0) (Fin 1) ! (3 * 0 + 1) = Fin py \<and>
    sphereVertices (Fin 0) (Fin 0) (Fin 0) (Fin 1) ! (3 * 0 + 2) = Fin pz \<and>
    sphereNormals (Fin 1) ! (3 * 0) = Fin nx \<and>
    sphereNormals (Fin 1) ! (3 * 0 + 1) = Fin ny \<and>
    sphereNormals (Fin 1) ! (3 * 0 + 2) = Fin nz \<and>
    nx = (px - 0) * (1 / 1) \<and> ny = (py - 0) * (1 / 1) \<and> nz = (pz - 0) * (1 / 1) \<and>
    sqrt ((px - 0)\<^sup>2 + (py - 0)\<^sup>2 + (pz - 0)\<^sup>2) = \<bar>1\<bar> \<and>
    sqrt (nx\<^sup>2 + ny\<^sup>2 + nz\<^sup>2) = 1)"
proof -
  have h: "(0::nat) < 100" "(1::real) \<noteq> 0"
    by simp_all
  show ?thesis
    using C7_normals [OF h, of 0 0 0] h by blast
qed

theorem C7_zero_radius_counterexample:
  "select_orbital 2 0 0 = Some Orb200 \<and>
   main 2 0 0 True = Inr (projr (main 2 0 0 True)) \<and>
   radius (sample Orb200 10 5 5) = Fin 0 \<and>
   sphereNormals (radius (sample Orb200 10 5 5)) ! 0 = NonReal \<and>
   vertexArr (projr (main 2 0 0 True)) ! (10 * 133100 + (5 * 12100 + (5 * 1100 + (0 * 11 + 8)))) =
     NonReal"
proof -
  have sel: "select_orbital 2 0 0 = Some Orb200"
    by (simp add: select_orbital_def)
  have normal: "sphereNormals (Fin 0) ! 0 = NonReal"
    using nth_sphereNormals [of 0 0 "Fin 0"] by (simp add: fl)
  have "vertex_record (sample Orb200 10 5 5) 0 ! 8 = NonReal"
    by (simp add: vertex_record_def Let_def radius_200_10_5_5 fl)
  then have "vertexArr (projr (main 2 0 0 True)) !
      (10 * 133100 + (5 * 12100 + (5 * 1100 + (0 * 11 + 8)))) = NonReal"
    by (subst nth_vertexArr [OF main_2_0_0 sel]) simp_all
  with sel normal main_2_0_0 show ?thesis
    by (simp only: radius_200_10_5_5)
qed

end
